theory Spec2Isabelle
  imports Main "HOL-Library.Log_Nat"
begin

section \<open>The test runner of Cortex Lattice (src/executor/run\_tests.py)\<close>

text \<open>
  The runner loads a problem definition and a candidate solution, picks the function to
  test, calls it once per test case under a SIGALRM watchdog, compares each output with
  the expected value and builds a report. The embedding below follows the source
  function by function. What lies outside the source (the file system, the YAML parser,
  the candidate's code, the clock, the signal machinery) is data given to the model:
  an \<open>env\<close> for the files, a \<open>behaviour\<close> for each call of the candidate and a
  \<open>world\<close> for the clock and the pending alarm.
\<close>

subsection \<open>Python values\<close>

text \<open>
  The values that YAML test cases and candidates exchange: \<open>None\<close>, booleans, integers,
  floats, strings, lists, tuples and dictionaries (in insertion order, keys being values
  themselves). A float is given by the exact rational value of a finite binary64
  number; infinities and NaN are not part of the domain.
\<close>

datatype pyval =
    PNone
  | PBool bool
  | PInt int
  | PFloat rat
  | PStr string
  | PList "pyval list"
  | PTuple "pyval list"
  | PDict "(pyval \<times> pyval) list"

subsection \<open>Floats: binary64 rounding and Python's \<open>round(x, ndigits)\<close>\<close>

definition round_half_even :: "rat \<Rightarrow> int" where
  "round_half_even x =
     (let f = \<lfloor>x\<rfloor>; r = x - of_int f
      in if r < 1 / 2 then f
         else if 1 / 2 < r then f + 1
         else if even f then f else f + 1)"

text \<open>\<open>binexp x\<close> is the exponent \<open>e\<close> with \<open>2 ^ e \<le> |x| < 2 ^ (e + 1)\<close>, for \<open>x \<noteq> 0\<close>.\<close>

definition binexp :: "rat \<Rightarrow> int" where
  "binexp x =
     (let (p, q) = quotient_of \<bar>x\<bar>; e0 = bitlen p - bitlen q
      in if 2 powi e0 \<le> \<bar>x\<bar> then e0 else e0 - 1)"

text \<open>
  The binary64 number nearest to a rational, ties to even: 53 significant bits, the
  exponent not below that of the subnormal numbers. Overflow to infinity is not modelled.
\<close>

definition nearest_double :: "rat \<Rightarrow> rat" where
  "nearest_double x =
     (if x = 0 then 0
      else let e = max (binexp x) (- 1022); u = 2 powi (e - 52)
           in of_int (round_half_even (x / u)) * u)"

text \<open>
  CPython's \<open>round(x, ndigits)\<close> on a float: the exact value of \<open>x\<close> is rounded to
  \<open>ndigits\<close> decimal places, half to even, and the decimal result is converted to the
  nearest float.
\<close>

definition py_round :: "rat \<Rightarrow> nat \<Rightarrow> rat" where
  "py_round x ndigits =
     nearest_double (of_int (round_half_even (x * 10 ^ ndigits)) / 10 ^ ndigits)"

definition fsub :: "rat \<Rightarrow> rat \<Rightarrow> rat" where
  "fsub a b = nearest_double (a - b)"

definition fmul :: "rat \<Rightarrow> rat \<Rightarrow> rat" where
  "fmul a b = nearest_double (a * b)"

definition fadd :: "rat \<Rightarrow> rat \<Rightarrow> rat" where
  "fadd a b = nearest_double (a + b)"

subsection \<open>\<open>normalize_output\<close> and \<open>compare_outputs\<close>\<close>

fun normalize_output :: "pyval \<Rightarrow> pyval" where
  "normalize_output (PList vs) = PList (map normalize_output vs)"
| "normalize_output (PTuple vs) = PList (map normalize_output vs)"
| "normalize_output (PFloat x) = PFloat (py_round x 6)"
| "normalize_output (PDict kvs) = PDict (map (\<lambda>(k, v). (k, normalize_output v)) kvs)"
| "normalize_output v = v"

text \<open>
  Python's \<open>==\<close> on these values. Booleans, integers and floats compare by numeric
  value; a list never equals a tuple; two dictionaries are equal when they have the same
  number of entries and every key of the first is found in the second (by \<open>==\<close>) with an
  equal value.
\<close>

fun to_num :: "pyval \<Rightarrow> rat option" where
  "to_num (PBool b) = Some (if b then 1 else 0)"
| "to_num (PInt i) = Some (of_int i)"
| "to_num (PFloat x) = Some x"
| "to_num _ = None"

function (sequential) py_eq :: "pyval \<Rightarrow> pyval \<Rightarrow> bool"
  and py_eq_seq :: "pyval list \<Rightarrow> pyval list \<Rightarrow> bool"
  and dict_sub :: "(pyval \<times> pyval) list \<Rightarrow> (pyval \<times> pyval) list \<Rightarrow> bool"
  and dict_has :: "pyval \<Rightarrow> pyval \<Rightarrow> (pyval \<times> pyval) list \<Rightarrow> bool"
where
  "py_eq PNone b = (b = PNone)"
| "py_eq (PStr s) b = (b = PStr s)"
| "py_eq (PList xs) (PList ys) = py_eq_seq xs ys"
| "py_eq (PList xs) b = False"
| "py_eq (PTuple xs) (PTuple ys) = py_eq_seq xs ys"
| "py_eq (PTuple xs) b = False"
| "py_eq (PDict a) (PDict b) = (length a = length b \<and> dict_sub a b)"
| "py_eq (PDict a) b = False"
| "py_eq a b = (case to_num b of None \<Rightarrow> False | Some y \<Rightarrow> to_num a = Some y)"
| "py_eq_seq [] ys = (ys = [])"
| "py_eq_seq (x # xs) [] = False"
| "py_eq_seq (x # xs) (y # ys) = (py_eq x y \<and> py_eq_seq xs ys)"
| "dict_sub [] b = True"
| "dict_sub ((k, v) # a) b = (dict_has k v b \<and> dict_sub a b)"
| "dict_has k v [] = False"
| "dict_has k v ((k2, v2) # b) = (if py_eq k k2 then py_eq v v2 else dict_has k v b)"
  by pat_completeness auto
termination
  by (relation "measures
        [\<lambda>x. case x of
             Inl (Inl (a, b)) \<Rightarrow> size a
           | Inl (Inr (xs, ys)) \<Rightarrow> size_list size xs
           | Inr (Inl (a, b)) \<Rightarrow> size_list (size_prod size size) a
           | Inr (Inr (k, v, b)) \<Rightarrow> size k + size v + 1,
         \<lambda>x. case x of
             Inr (Inr (k, v, b)) \<Rightarrow> length b
           | _ \<Rightarrow> 0]") auto

fun is_list :: "pyval \<Rightarrow> bool" where
  "is_list (PList vs) = True"
| "is_list _ = False"

fun py_len :: "pyval \<Rightarrow> nat" where
  "py_len (PList vs) = length vs"
| "py_len (PTuple vs) = length vs"
| "py_len (PDict kvs) = length kvs"
| "py_len (PStr s) = length s"
| "py_len _ = 0"

text \<open>The body of \<open>compare_outputs\<close> after its two normalising assignments.\<close>

definition compare_normalized :: "pyval \<Rightarrow> pyval \<Rightarrow> bool" where
  "compare_normalized actual expected =
     (if expected = PNone then actual = PNone
      else if is_list expected \<and> is_list actual then
        (if py_len expected \<noteq> py_len actual then False else py_eq actual expected)
      else py_eq actual expected)"

definition compare_outputs :: "pyval \<Rightarrow> pyval \<Rightarrow> bool" where
  "compare_outputs actual expected =
     compare_normalized (normalize_output actual) (normalize_output expected)"

subsection \<open>Exceptions, outcomes and the candidate's behaviour\<close>

text \<open>
  An exception is given by the class the runner's handlers test for, the name of its
  type, its message (\<open>str(e)\<close>) and the text \<open>traceback.format_exc()\<close> prints for it.
  \<open>TimeoutErrorC\<close> is the module's own \<open>TimeoutError\<close>; \<open>ExceptionC\<close> stands for every
  other subclass of \<open>Exception\<close>; \<open>BaseExceptionC\<close> for what derives from
  \<open>BaseException\<close> only (\<open>SystemExit\<close>, \<open>KeyboardInterrupt\<close>, \<open>GeneratorExit\<close>).
  Classes inheriting from several of the tested classes are not modelled.
\<close>

datatype exn_class =
    TimeoutErrorC | FileNotFoundErrorC | SyntaxErrorC | ValueErrorC | ExceptionC
  | BaseExceptionC

datatype exn = Exn (exn_class: exn_class) (type_name: string) (message: string)
  (format_exc: string)

definition is_Exception :: "exn \<Rightarrow> bool" where
  "is_Exception e = (exn_class e \<noteq> BaseExceptionC)"

text \<open>
  A piece of Python either returns, raises, or never comes back.
\<close>

datatype 'a outcome = Ok 'a | Raise exn | Hang

text \<open>
  What a call of the candidate does when nothing interrupts it: it returns a value or
  raises after some seconds, or it runs forever. The candidate is taken to be a function
  of its arguments.
\<close>

datatype behaviour = Returns pyval rat | Raises exn rat | Never

datatype pyobj = Fn "pyval \<Rightarrow> behaviour" | Val pyval

text \<open>Calling an object that is not callable raises \<open>TypeError\<close> at once.\<close>

fun as_callable :: "pyobj \<Rightarrow> pyval \<Rightarrow> behaviour" where
  "as_callable (Fn f) = f"
| "as_callable (Val v) =
     (\<lambda>_. Raises (Exn ExceptionC ''TypeError'' ''object is not callable'' []) 0)"

subsection \<open>The clock and the alarm\<close>

text \<open>
  \<open>has_sigalrm\<close> is \<open>hasattr(signal, 'SIGALRM')\<close>; \<open>alarm\<close> is the time at which a
  pending SIGALRM fires; \<open>now\<close> is the time in seconds.
\<close>

record world =
  has_sigalrm :: bool
  alarm :: "rat option"
  now :: rat

definition time_time :: "world \<Rightarrow> rat" where
  "time_time w = nearest_double (now w)"

text \<open>\<open>signal.alarm(n)\<close>: a pending alarm is replaced; \<open>n = 0\<close> only cancels.\<close>

definition signal_alarm :: "nat \<Rightarrow> world \<Rightarrow> world" where
  "signal_alarm n w = w\<lparr>alarm := (if n = 0 then None else Some (now w + of_nat n))\<rparr>"

definition timeout_handler :: exn where
  "timeout_handler = Exn TimeoutErrorC ''TimeoutError'' ''Test execution timed out'' []"

text \<open>
  \<open>func(**test_input)\<close> with \<open>timeout_handler\<close> installed for SIGALRM. If an alarm is
  pending and falls before the call would end, the handler raises inside the call at
  that time and the alarm is spent; the candidate is taken not to intercept it. A call
  that runs forever with no alarm pending never comes back.
\<close>

definition interrupted :: "world \<Rightarrow> pyval outcome \<times> world" where
  "interrupted w =
     (case alarm w of
        Some t \<Rightarrow> (Raise timeout_handler, w\<lparr>alarm := None, now := t\<rparr>)
      | None \<Rightarrow> (Hang, w))"

definition fires_before :: "world \<Rightarrow> rat \<Rightarrow> bool" where
  "fires_before w d = (case alarm w of Some t \<Rightarrow> t < now w + d | None \<Rightarrow> False)"

definition call :: "(pyval \<Rightarrow> behaviour) \<Rightarrow> pyval \<Rightarrow> world \<Rightarrow> pyval outcome \<times> world" where
  "call func test_input w =
     (case func test_input of
        Returns v d \<Rightarrow>
          if fires_before w d then interrupted w else (Ok v, w\<lparr>now := now w + d\<rparr>)
      | Raises e d \<Rightarrow>
          if fires_before w d then interrupted w else (Raise e, w\<lparr>now := now w + d\<rparr>)
      | Never \<Rightarrow> interrupted w)"

subsection \<open>\<open>run_single_test\<close>\<close>

text \<open>
  A test case is a dictionary read with \<open>.get\<close>: each key is present or absent.
\<close>

record test_case =
  tc_id :: "pyval option"
  tc_input :: "pyval option"
  tc_expected :: "pyval option"
  tc_explanation :: "pyval option"

record test_result =
  tr_id :: pyval
  tr_input :: pyval
  tr_expected :: pyval
  tr_explanation :: pyval
  tr_passed :: bool
  tr_output :: pyval
  tr_error :: "string option"
  tr_execution_time_ms :: rat
  tr_traceback :: "string option"

definition dict_get :: "'a option \<Rightarrow> 'a \<Rightarrow> 'a" where
  "dict_get entry dflt = (case entry of Some v \<Rightarrow> v | None \<Rightarrow> dflt)"

fun digit_char :: "nat \<Rightarrow> char" where
  "digit_char n = char_of (48 + n)"

fun str_of_nat :: "nat \<Rightarrow> string" where
  "str_of_nat n =
     (if n < 10 then [digit_char n] else str_of_nat (n div 10) @ [digit_char (n mod 10)])"

text \<open>The \<open>finally\<close> clause.\<close>

definition disable_timeout :: "world \<Rightarrow> world" where
  "disable_timeout w = (if has_sigalrm w then signal_alarm 0 w else w)"

definition run_single_test ::
  "(pyval \<Rightarrow> behaviour) \<Rightarrow> test_case \<Rightarrow> nat \<Rightarrow> world \<Rightarrow> test_result outcome \<times> world" where
  "run_single_test func test_case timeout_seconds w0 =
     (let test_input = dict_get (tc_input test_case) (PDict []);
          expected = dict_get (tc_expected test_case) PNone;
          test_id = dict_get (tc_id test_case) (PStr ''unknown'');
          explanation = dict_get (tc_explanation test_case) (PStr []);
          result = \<lparr>tr_id = test_id, tr_input = test_input, tr_expected = expected,
                    tr_explanation = explanation, tr_passed = False, tr_output = PNone,
                    tr_error = None, tr_execution_time_ms = 0, tr_traceback = None\<rparr>;
          w1 = (if has_sigalrm w0 then signal_alarm timeout_seconds w0 else w0);
          start_time = time_time w1;
          (r, w2) = call func test_input w1
      in case r of
           Ok actual_output \<Rightarrow>
             let end_time = time_time w2;
                 result1 = result\<lparr>tr_execution_time_ms :=
                             py_round (fmul (fsub end_time start_time) 1000) 2\<rparr>;
                 w3 = (if has_sigalrm w2 then signal_alarm 0 w2 else w2);
                 result2 = result1\<lparr>tr_output := actual_output\<rparr>;
                 result3 = result2\<lparr>tr_passed := compare_outputs actual_output expected\<rparr>
             in (Ok result3, disable_timeout w3)
         | Raise e \<Rightarrow>
             if exn_class e = TimeoutErrorC then
               (Ok (result\<lparr>tr_error := Some (''Timeout: execution exceeded ''
                                @ str_of_nat timeout_seconds @ '' seconds'')\<rparr>),
                disable_timeout w2)
             else if is_Exception e then
               (Ok (result\<lparr>tr_error := Some (type_name e @ '': '' @ message e),
                           tr_traceback := Some (format_exc e)\<rparr>),
                disable_timeout w2)
             else (Raise e, disable_timeout w2)
         | Hang \<Rightarrow> (Hang, w2))"

subsection \<open>String operations used by \<open>detect_function_name\<close>\<close>

text \<open>
  Strings are byte strings here; \<open>str.strip()\<close> removes the ASCII whitespace
  characters (codes 9 to 13, 28 to 32) from both ends.
\<close>

definition is_space :: "char \<Rightarrow> bool" where
  "is_space c = (let n = of_char c :: nat in (9 \<le> n \<and> n \<le> 13) \<or> (28 \<le> n \<and> n \<le> 32))"

definition strip :: "string \<Rightarrow> string" where
  "strip s = rev (dropWhile is_space (rev (dropWhile is_space s)))"

definition startswith :: "string \<Rightarrow> string \<Rightarrow> bool" where
  "startswith s p = (take (length p) s = p)"

text \<open>\<open>s.split(sep)\<close> for a separator of one character: never an empty list.\<close>

fun split_on :: "char \<Rightarrow> string \<Rightarrow> string list" where
  "split_on sep [] = [[]]"
| "split_on sep (c # cs) =
     (if c = sep then [] # split_on sep cs
      else (case split_on sep cs of p # ps \<Rightarrow> (c # p) # ps | [] \<Rightarrow> [[c]]))"

text \<open>\<open>s.replace(old, new)\<close>: all occurrences, left to right, without overlap.\<close>

function replace_str :: "string \<Rightarrow> string \<Rightarrow> string \<Rightarrow> string" where
  "replace_str old new s =
     (if old = [] then new @ concat (map (\<lambda>c. c # new) s)
      else if s = [] then []
      else if startswith s old then new @ replace_str old new (drop (length old) s)
      else hd s # replace_str old new (tl s))"
  by pat_completeness auto
termination
  by (relation "measure (\<lambda>(old, new, s). length s)") auto

subsection \<open>\<open>detect_function_name\<close>\<close>

text \<open>
  A namespace is a dictionary from names to objects, in insertion order. A problem is
  the dictionary of the YAML file, read at the two keys the runner uses.
\<close>

type_synonym namespace = "(string \<times> pyobj) list"

record problem =
  starter_code_python :: "string option"
  test_cases :: "test_case list option"

fun callable :: "pyobj \<Rightarrow> bool" where
  "callable (Fn f) = True"
| "callable (Val v) = False"

text \<open>\<open>name in namespace and callable(namespace[name])\<close>\<close>

definition callable_in :: "namespace \<Rightarrow> string \<Rightarrow> bool" where
  "callable_in ns name = (case map_of ns name of Some obj \<Rightarrow> callable obj | None \<Rightarrow> False)"

definition extract_name :: "string \<Rightarrow> string" where
  "extract_name line = strip (replace_str ''def '' [] (hd (split_on CHR ''('' (strip line))))"

text \<open>The three loops, each returning at its first match.\<close>

fun scan_starter_code :: "namespace \<Rightarrow> string list \<Rightarrow> string option" where
  "scan_starter_code ns [] = None"
| "scan_starter_code ns (line # rest) =
     (if startswith (strip line) ''def '' then
        (let func_name = extract_name line
         in if callable_in ns func_name then Some func_name
            else scan_starter_code ns rest)
      else scan_starter_code ns rest)"

definition common_names :: "string list" where
  "common_names = [''solve'', ''solution'', ''main'', ''find_asteroid_pair'', ''find_top_k_pairs'']"

fun scan_common_names :: "namespace \<Rightarrow> string list \<Rightarrow> string option" where
  "scan_common_names ns [] = None"
| "scan_common_names ns (name # rest) =
     (if callable_in ns name then Some name else scan_common_names ns rest)"

text \<open>\<open>builtin_names\<close> stands for \<open>dir(__builtins__)\<close>.\<close>

fun scan_namespace :: "string list \<Rightarrow> namespace \<Rightarrow> string option" where
  "scan_namespace builtin_names [] = None"
| "scan_namespace builtin_names ((name, obj) # rest) =
     (if callable obj \<and> \<not> startswith name ''_'' \<and> name \<notin> set builtin_names then Some name
      else scan_namespace builtin_names rest)"

definition detect_function_name :: "string list \<Rightarrow> problem \<Rightarrow> namespace \<Rightarrow> string outcome" where
  "detect_function_name builtin_names problem ns =
     (let starter_code = dict_get (starter_code_python problem) []
      in case scan_starter_code ns (split_on CHR 0x0A starter_code) of
           Some func_name \<Rightarrow> Ok func_name
         | None \<Rightarrow>
             (case scan_common_names ns common_names of
                Some name \<Rightarrow> Ok name
              | None \<Rightarrow>
                  (case scan_namespace builtin_names ns of
                     Some name \<Rightarrow> Ok name
                   | None \<Rightarrow>
                       Raise (Exn ValueErrorC ''ValueError''
                                ''Could not detect function to test'' []))))"

subsection \<open>The files: \<open>load_problem\<close> and \<open>import_user_solution\<close>\<close>

text \<open>
  \<open>problem_yaml\<close> is \<open>None\<close> when \<open>problem.yaml\<close> does not exist, and otherwise what
  opening and parsing it gives. \<open>solution_exec\<close> is \<open>None\<close> when the solution file does
  not exist, and otherwise what \<open>exec(compile(user_code, ...), namespace)\<close> gives: the
  filled namespace, an exception, or no return. \<open>builtins\<close> is \<open>dir(__builtins__)\<close>.
\<close>

record env =
  problem_dir :: string
  solution_path :: string
  problem_yaml :: "problem outcome option"
  solution_exec :: "namespace outcome option"
  builtins :: "string list"

definition load_problem :: "env \<Rightarrow> problem outcome" where
  "load_problem en =
     (let problem_path = problem_dir en @ ''/problem.yaml''
      in case problem_yaml en of
           None \<Rightarrow> Raise (Exn FileNotFoundErrorC ''FileNotFoundError''
                            (''Problem file not found: '' @ problem_path) [])
         | Some r \<Rightarrow> r)"

definition import_user_solution :: "env \<Rightarrow> namespace outcome" where
  "import_user_solution en =
     (case solution_exec en of
        None \<Rightarrow> Raise (Exn FileNotFoundErrorC ''FileNotFoundError''
                         (''Solution file not found: '' @ solution_path en) [])
      | Some (Ok ns) \<Rightarrow> Ok ns
      | Some (Raise e) \<Rightarrow>
          if exn_class e = SyntaxErrorC then
            Raise (Exn SyntaxErrorC ''SyntaxError''
                     (''Syntax error in solution: '' @ message e) (format_exc e))
          else if is_Exception e then
            Raise (Exn ExceptionC ''RuntimeError''
                     (''Error loading solution: '' @ message e) (format_exc e))
          else Raise e
      | Some Hang \<Rightarrow> Hang)"

subsection \<open>\<open>run_tests\<close> and \<open>main\<close>\<close>

record run_report =
  rr_success :: bool
  rr_total :: nat
  rr_passed :: nat
  rr_failed :: nat
  rr_results :: "test_result list"
  rr_error :: "string option"
  rr_traceback :: "string option"

text \<open>
  The \<open>except\<close> clauses of \<open>run_tests\<close>, applied to the report as it stands when the
  exception arrives. What no clause catches leaves \<open>run_tests\<close>.
\<close>

definition handle_exn :: "exn \<Rightarrow> run_report \<Rightarrow> run_report outcome" where
  "handle_exn e results =
     (if exn_class e = FileNotFoundErrorC then
        Ok (results\<lparr>rr_success := False, rr_error := Some (message e)\<rparr>)
      else if exn_class e = SyntaxErrorC then
        Ok (results\<lparr>rr_success := False, rr_error := Some (''Syntax Error: '' @ message e)\<rparr>)
      else if exn_class e = ValueErrorC then
        Ok (results\<lparr>rr_success := False, rr_error := Some (message e)\<rparr>)
      else if is_Exception e then
        Ok (results\<lparr>rr_success := False,
                     rr_error := Some (''Unexpected error: '' @ type_name e @ '': '' @ message e),
                     rr_traceback := Some (format_exc e)\<rparr>)
      else Raise e)"

text \<open>
  The loop over the test cases. It gives back how it ended, the report as built so far
  and the world.
\<close>

fun run_each :: "(pyval \<Rightarrow> behaviour) \<Rightarrow> test_case list \<Rightarrow> run_report \<Rightarrow> world
    \<Rightarrow> unit outcome \<times> run_report \<times> world" where
  "run_each func [] results w = (Ok (), results, w)"
| "run_each func (test_case # rest) results w =
     (case run_single_test func test_case 2 w of
        (Ok test_result, w') \<Rightarrow>
          (let results1 = results\<lparr>rr_results := rr_results results @ [test_result]\<rparr>;
               results2 = (if tr_passed test_result
                           then results1\<lparr>rr_passed := rr_passed results1 + 1\<rparr>
                           else results1\<lparr>rr_failed := rr_failed results1 + 1\<rparr>)
           in run_each func rest results2 w')
      | (Raise e, w') \<Rightarrow> (Raise e, results, w')
      | (Hang, w') \<Rightarrow> (Hang, results, w'))"

text \<open>\<open>namespace[func_name]\<close>\<close>

definition ns_lookup :: "namespace \<Rightarrow> string \<Rightarrow> pyobj outcome" where
  "ns_lookup ns name =
     (case map_of ns name of
        Some obj \<Rightarrow> Ok obj
      | None \<Rightarrow> Raise (Exn ExceptionC ''KeyError'' name []))"

definition initial_report :: run_report where
  "initial_report = \<lparr>rr_success = True, rr_total = 0, rr_passed = 0, rr_failed = 0,
                      rr_results = [], rr_error = None, rr_traceback = None\<rparr>"

definition run_tests :: "env \<Rightarrow> world \<Rightarrow> run_report outcome \<times> world" where
  "run_tests en w =
     (let results = initial_report
      in case load_problem en of
           Raise e \<Rightarrow> (handle_exn e results, w)
         | Hang \<Rightarrow> (Hang, w)
         | Ok problem \<Rightarrow>
             (let tcs = dict_get (test_cases problem) []
              in if tcs = [] then
                   (Ok (results\<lparr>rr_error := Some ''No test cases found in problem definition'',
                                rr_success := False\<rparr>), w)
                 else
                   (let results1 = results\<lparr>rr_total := length tcs\<rparr>
                    in case import_user_solution en of
                         Raise e \<Rightarrow> (handle_exn e results1, w)
                       | Hang \<Rightarrow> (Hang, w)
                       | Ok ns \<Rightarrow>
                           (case detect_function_name (builtins en) problem ns of
                              Raise e \<Rightarrow> (handle_exn e results1, w)
                            | Hang \<Rightarrow> (Hang, w)
                            | Ok func_name \<Rightarrow>
                                (case ns_lookup ns func_name of
                                   Raise e \<Rightarrow> (handle_exn e results1, w)
                                 | Hang \<Rightarrow> (Hang, w)
                                 | Ok func \<Rightarrow>
                                     (case run_each (as_callable func) tcs results1 w of
                                        (Ok u, results2, w') \<Rightarrow> (Ok results2, w')
                                      | (Raise e, results2, w') \<Rightarrow> (handle_exn e results2, w')
                                      | (Hang, results2, w') \<Rightarrow> (Hang, w')))))))"



subsection \<open>Shorthands for stating the properties\<close>

text \<open>
  The first step of \<open>run_single_test\<close> (arming the watchdog where SIGALRM exists), and
  the result dictionary as it is before the call.
\<close>

definition arm :: "nat \<Rightarrow> world \<Rightarrow> world" where
  "arm n w = (if has_sigalrm w then signal_alarm n w else w)"

definition blank_result :: "test_case \<Rightarrow> test_result" where
  "blank_result tc =
     \<lparr>tr_id = dict_get (tc_id tc) (PStr ''unknown''),
      tr_input = dict_get (tc_input tc) (PDict []),
      tr_expected = dict_get (tc_expected tc) PNone,
      tr_explanation = dict_get (tc_explanation tc) (PStr []),
      tr_passed = False, tr_output = PNone, tr_error = None,
      tr_execution_time_ms = 0, tr_traceback = None\<rparr>"

text \<open>One turn of the loop of \<open>run_tests\<close> on the report: append the result and count it.\<close>

definition add_result :: "test_result \<Rightarrow> run_report \<Rightarrow> run_report" where
  "add_result tr r =
     (if tr_passed tr
      then r\<lparr>rr_results := rr_results r @ [tr], rr_passed := rr_passed r + 1\<rparr>
      else r\<lparr>rr_results := rr_results r @ [tr], rr_failed := rr_failed r + 1\<rparr>)"

subsection \<open>Concrete runs\<close>

text \<open>
  Worlds with and without SIGALRM, a few candidates and a problem with the test cases
  of an \<open>add(a, b)\<close> exercise, used to run the definitions on concrete inputs.
\<close>

definition unix_world :: world where
  "unix_world = \<lparr>has_sigalrm = True, alarm = None, now = 0\<rparr>"


definition type_error :: exn where
  "type_error = Exn ExceptionC ''TypeError'' ''add() argument mismatch'' []"

fun cand_add :: "pyval \<Rightarrow> behaviour" where
  "cand_add (PDict [(PStr a, PInt x), (PStr b, PInt y)]) =
     (if a = ''a'' \<and> b = ''b'' then Returns (PInt (x + y)) (1 / 1000)
      else Raises type_error 0)"
| "cand_add _ = Raises type_error 0"



definition zero_division :: exn where
  "zero_division = Exn ExceptionC ''ZeroDivisionError'' ''division by zero'' []"

definition cand_raise :: "pyval \<Rightarrow> behaviour" where
  "cand_raise = (\<lambda>_. Raises zero_division (1 / 2))"



definition tc_add :: "int \<Rightarrow> int \<Rightarrow> pyval \<Rightarrow> test_case" where
  "tc_add x y e =
     \<lparr>tc_id = None, tc_input = Some (PDict [(PStr ''a'', PInt x), (PStr ''b'', PInt y)]),
      tc_expected = Some e, tc_explanation = None\<rparr>"

definition env_add :: "(pyval \<Rightarrow> behaviour) \<Rightarrow> test_case list \<Rightarrow> env" where
  "env_add cand tcs =
     \<lparr>problem_dir = ''/code/problem'', solution_path = ''/code/solution.py'',
      problem_yaml = Some (Ok \<lparr>starter_code_python = Some ''def add(a, b):'',
                               test_cases = Some tcs\<rparr>),
      solution_exec = Some (Ok [(''__builtins__'', Val PNone), (''add'', Fn cand)]),
      builtins = [''abs'', ''len'', ''print'']\<rparr>"

text \<open>
  A test case with no input (the candidate is then called without arguments), three
  test cases of which the second makes \<open>add\<close> raise, and a solution file that does not
  compile.
\<close>

definition tc_empty :: test_case where
  "tc_empty = \<lparr>tc_id = Some (PStr ''no-input''), tc_input = None,
                tc_expected = Some (PInt 0), tc_explanation = None\<rparr>"

definition three_cases :: "test_case list" where
  "three_cases = [tc_add 1 2 (PInt 3), tc_empty, tc_add 2 2 (PInt 4)]"



text \<open>The report of \<open>add\<close> on the three test cases.\<close>

definition three_report :: run_report where
  "three_report =
     \<lparr>rr_success = True, rr_total = 3, rr_passed = 2, rr_failed = 1,
      rr_results =
        [\<lparr>tr_id = PStr ''unknown'',
           tr_input = PDict [(PStr ''a'', PInt 1), (PStr ''b'', PInt 2)],
           tr_expected = PInt 3, tr_explanation = PStr [],
           tr_passed = True, tr_output = PInt 3, tr_error = None,
           tr_execution_time_ms = 1, tr_traceback = None\<rparr>,
         \<lparr>tr_id = PStr ''no-input'', tr_input = PDict [],
           tr_expected = PInt 0, tr_explanation = PStr [],
           tr_passed = False, tr_output = PNone,
           tr_error = Some ''TypeError: add() argument mismatch'',
           tr_execution_time_ms = 0, tr_traceback = Some []\<rparr>,
         \<lparr>tr_id = PStr ''unknown'',
           tr_input = PDict [(PStr ''a'', PInt 2), (PStr ''b'', PInt 2)],
           tr_expected = PInt 4, tr_explanation = PStr [],
           tr_passed = True, tr_output = PInt 4, tr_error = None,
           tr_execution_time_ms = 1, tr_traceback = None\<rparr>],
      rr_error = None, rr_traceback = None\<rparr>"

subsection \<open>Notions used in the statements\<close>

text \<open>
  What a result echoes of its test case: id, input, expected value and explanation, with
  the defaults of \<open>run_single_test\<close>.
\<close>

definition echo_tc :: "test_case \<Rightarrow> pyval \<times> pyval \<times> pyval \<times> pyval" where
  "echo_tc tc =
     (dict_get (tc_id tc) (PStr ''unknown''), dict_get (tc_input tc) (PDict []),
      dict_get (tc_expected tc) PNone, dict_get (tc_explanation tc) (PStr []))"

definition echo_tr :: "test_result \<Rightarrow> pyval \<times> pyval \<times> pyval \<times> pyval" where
  "echo_tr tr = (tr_id tr, tr_input tr, tr_expected tr, tr_explanation tr)"

text \<open>
  A call is a fault when it does not return a value. It is a fault the executor can
  take when what it raises is an \<open>Exception\<close>, and, for a call that never ends, when
  the platform has SIGALRM.
\<close>

fun is_fault :: "behaviour \<Rightarrow> bool" where
  "is_fault (Returns v d) = False"
| "is_fault (Raises e d) = True"
| "is_fault Never = True"



text \<open>
  The floats of a value that stand as an element of a list or tuple or as a value of a
  dictionary, at any depth, or are the value itself; dictionary keys are left out.
\<close>

fun value_floats :: "pyval \<Rightarrow> rat list" where
  "value_floats (PFloat x) = [x]"
| "value_floats (PList vs) = concat (map value_floats vs)"
| "value_floats (PTuple vs) = concat (map value_floats vs)"
| "value_floats (PDict kvs) = concat (map (\<lambda>(k, v). value_floats v) kvs)"
| "value_floats v = []"

text \<open>
  The ordered selection that \<open>detect_function_name\<close> makes, written with \<open>find\<close>: the
  names its declaration lines give, then the common names, then the namespace.
\<close>

definition hint_names :: "problem \<Rightarrow> string list" where
  "hint_names problem =
     map extract_name
       (filter (\<lambda>line. startswith (strip line) ''def '')
          (split_on CHR 0x0A (dict_get (starter_code_python problem) [])))"

definition ordered_selection :: "string list \<Rightarrow> problem \<Rightarrow> namespace \<Rightarrow> string outcome" where
  "ordered_selection builtin_names problem ns =
     (case find (callable_in ns) (hint_names problem) of
        Some name \<Rightarrow> Ok name
      | None \<Rightarrow>
          (case find (callable_in ns) common_names of
             Some name \<Rightarrow> Ok name
           | None \<Rightarrow>
               (case find (\<lambda>(name, obj). callable obj \<and> \<not> startswith name ''_''
                                  \<and> name \<notin> set builtin_names) ns of
                  Some (name, obj) \<Rightarrow> Ok name
                | None \<Rightarrow>
                    Raise (Exn ValueErrorC ''ValueError''
                             ''Could not detect function to test'' []))))"

section \<open>Properties\<close>

subsection \<open>\<open>run_single_test\<close>, by the outcome of the call\<close>


lemma rst_Ok:
  assumes "call func (dict_get (tc_input tc) (PDict [])) (arm n w) = (Ok v, w2)"
  shows "run_single_test func tc n w =
           (Ok ((blank_result tc)\<lparr>tr_execution_time_ms :=
                    py_round (fmul (fsub (time_time w2) (time_time (arm n w))) 1000) 2,
                  tr_output := v,
                  tr_passed := compare_outputs v (dict_get (tc_expected tc) PNone)\<rparr>),
            disable_timeout (arm 0 w2))"
  using assms by (simp add: run_single_test_def arm_def blank_result_def Let_def)

lemma rst_Raise:
  assumes "call func (dict_get (tc_input tc) (PDict [])) (arm n w) = (Raise e, w2)"
  shows "run_single_test func tc n w =
           (if exn_class e = TimeoutErrorC then
              (Ok ((blank_result tc)\<lparr>tr_error := Some (''Timeout: execution exceeded ''
                                @ str_of_nat n @ '' seconds'')\<rparr>), disable_timeout w2)
            else if is_Exception e then
              (Ok ((blank_result tc)\<lparr>tr_error := Some (type_name e @ '': '' @ message e),
                           tr_traceback := Some (format_exc e)\<rparr>), disable_timeout w2)
            else (Raise e, disable_timeout w2))"
  using assms by (simp add: run_single_test_def arm_def blank_result_def Let_def)

lemma rst_Hang:
  assumes "call func (dict_get (tc_input tc) (PDict [])) (arm n w) = (Hang, w2)"
  shows "run_single_test func tc n w = (Hang, w2)"
  using assms by (simp add: run_single_test_def arm_def blank_result_def Let_def)

lemma call_cases:
  obtains (ok) v w2 where "call func x w = (Ok v, w2)"
  | (raise) e w2 where "call func x w = (Raise e, w2)"
  | (hang) w2 where "call func x w = (Hang, w2)"
proof (cases "call func x w")
  case (Pair r w2)
  then show ?thesis by (cases r) (auto intro: ok raise hang)
qed

subsection \<open>The clock, the alarm and the call\<close>

lemma has_sigalrm_arm [simp]: "has_sigalrm (arm n w) = has_sigalrm w"
  by (simp add: arm_def signal_alarm_def)

lemma has_sigalrm_disable [simp]: "has_sigalrm (disable_timeout w) = has_sigalrm w"
  by (simp add: disable_timeout_def signal_alarm_def)




lemma now_arm [simp]: "now (arm n w) = now w"
  by (simp add: arm_def signal_alarm_def)

lemma now_disable [simp]: "now (disable_timeout w) = now w"
  by (simp add: disable_timeout_def signal_alarm_def)



lemma call_fault:
  assumes "call func x w = (Ok v, w2)"
  shows "\<not> is_fault (func x)"
  using assms
  by (cases "func x")
     (auto simp: call_def fires_before_def interrupted_def split: option.splits if_splits)

subsection \<open>One test case, and the loop\<close>

lemma echo_blank [simp]: "echo_tr (blank_result tc) = echo_tc tc"
  by (simp add: echo_tr_def echo_tc_def blank_result_def)

lemma echo_tr_update [simp]:
  "echo_tr (r\<lparr>tr_error := a\<rparr>) = echo_tr r"
  "echo_tr (r\<lparr>tr_traceback := b\<rparr>) = echo_tr r"
  "echo_tr (r\<lparr>tr_execution_time_ms := c\<rparr>) = echo_tr r"
  "echo_tr (r\<lparr>tr_output := d\<rparr>) = echo_tr r"
  "echo_tr (r\<lparr>tr_passed := e\<rparr>) = echo_tr r"
  by (simp_all add: echo_tr_def)

lemma rst_echo:
  assumes "run_single_test func tc n w = (Ok tr, w')"
  shows "echo_tr tr = echo_tc tc"
proof (cases rule: call_cases [of func "dict_get (tc_input tc) (PDict [])" "arm n w"])
  case (ok v w2)
  from rst_Ok [OF ok] assms show ?thesis by auto
next
  case (raise e w2)
  from rst_Raise [OF raise] assms show ?thesis by (auto split: if_splits)
next
  case (hang w2)
  from rst_Hang [OF hang] assms show ?thesis by simp
qed



lemma run_each_Cons_Ok:
  "run_single_test func tc 2 w = (Ok tr, w1) \<Longrightarrow>
   run_each func (tc # tcs) r0 w = run_each func tcs (add_result tr r0) w1"
  by (simp add: add_result_def Let_def)

lemma run_each_Cons_Raise:
  "run_single_test func tc 2 w = (Raise e, w1) \<Longrightarrow>
   run_each func (tc # tcs) r0 w = (Raise e, r0, w1)"
  by simp

lemma run_each_Cons_Hang:
  "run_single_test func tc 2 w = (Hang, w1) \<Longrightarrow>
   run_each func (tc # tcs) r0 w = (Hang, r0, w1)"
  by simp

lemma rst_cases:
  obtains (ok) tr w1 where "run_single_test func tc n w = (Ok tr, w1)"
  | (raise) e w1 where "run_single_test func tc n w = (Raise e, w1)"
  | (hang) w1 where "run_single_test func tc n w = (Hang, w1)"
proof (cases "run_single_test func tc n w")
  case (Pair r w1)
  then show ?thesis by (cases r) (auto intro: ok raise hang)
qed

lemma add_result_fields [simp]:
  "rr_results (add_result tr r) = rr_results r @ [tr]"
  "rr_total (add_result tr r) = rr_total r"
  "rr_success (add_result tr r) = rr_success r"
  "rr_error (add_result tr r) = rr_error r"
  "rr_passed (add_result tr r) + rr_failed (add_result tr r) = rr_passed r + rr_failed r + 1"
  by (simp_all add: add_result_def)

text \<open>What the loop has built when it ends, however it ends.\<close>

lemma run_each_report:
  assumes "run_each func tcs r0 w = (st, r, w')"
  shows "\<exists>rs. rr_results r = rr_results r0 @ rs
           \<and> map echo_tr rs = map echo_tc (take (length rs) tcs)
           \<and> rr_passed r + rr_failed r = rr_passed r0 + rr_failed r0 + length rs
           \<and> rr_total r = rr_total r0 \<and> rr_success r = rr_success r0
           \<and> rr_error r = rr_error r0
           \<and> (st = Ok () \<longrightarrow> length rs = length tcs)"
  using assms
proof (induction tcs arbitrary: r0 w)
  case Nil
  then show ?case by simp
next
  case (Cons tc tcs)
  show ?case
  proof (cases rule: rst_cases [of func tc 2 w])
    case (ok tr w1)
    from Cons.prems run_each_Cons_Ok [OF ok]
    have "run_each func tcs (add_result tr r0) w1 = (st, r, w')" by simp
    from Cons.IH [OF this] obtain rs where rs:
      "rr_results r = rr_results (add_result tr r0) @ rs"
      "map echo_tr rs = map echo_tc (take (length rs) tcs)"
      "rr_passed r + rr_failed r
         = rr_passed (add_result tr r0) + rr_failed (add_result tr r0) + length rs"
      "rr_total r = rr_total (add_result tr r0)" "rr_success r = rr_success (add_result tr r0)"
      "rr_error r = rr_error (add_result tr r0)"
      "st = Ok () \<longrightarrow> length rs = length tcs"
      by blast
    have "rr_results r = rr_results r0 @ (tr # rs)" using rs(1) by simp
    moreover have "map echo_tr (tr # rs) = map echo_tc (take (length (tr # rs)) (tc # tcs))"
      using rs(2) rst_echo [OF ok] by simp
    moreover have "rr_passed r + rr_failed r = rr_passed r0 + rr_failed r0 + length (tr # rs)"
      using rs(3) by simp
    moreover have "st = Ok () \<longrightarrow> length (tr # rs) = length (tc # tcs)"
      using rs(7) by simp
    ultimately show ?thesis using rs(4,5,6) by (intro exI [of _ "tr # rs"]) simp
  next
    case (raise e w1)
    from Cons.prems run_each_Cons_Raise [OF raise] show ?thesis by auto
  next
    case (hang w1)
    from Cons.prems run_each_Cons_Hang [OF hang] show ?thesis by auto
  qed
qed

subsection \<open>Concrete runs, step by step\<close>

lemma ms_first: "py_round (fmul (fsub (nearest_double (1 / 1000)) (nearest_double 0)) 1000) 2 = 1"
  by code_simp

lemma ms_third: "py_round (fmul (fsub (nearest_double (1 / 500)) (nearest_double (1 / 1000))) 1000) 2 = 1"
  by code_simp


lemma call_add:
  assumes "alarm w = Some (now w + 2)"
  shows "call cand_add (PDict [(PStr ''a'', PInt x), (PStr ''b'', PInt y)]) w
           = (Ok (PInt (x + y)), w\<lparr>now := now w + 1 / 1000\<rparr>)"
  using assms by (simp add: call_def fires_before_def)

lemma rst_add:
  assumes "has_sigalrm w"
  shows "run_single_test cand_add (tc_add x y e) 2 w =
           (Ok \<lparr>tr_id = PStr ''unknown'',
                tr_input = PDict [(PStr ''a'', PInt x), (PStr ''b'', PInt y)],
                tr_expected = e, tr_explanation = PStr [],
                tr_passed = compare_outputs (PInt (x + y)) e,
                tr_output = PInt (x + y), tr_error = None,
                tr_execution_time_ms =
                  py_round (fmul (fsub (nearest_double (now w + 1 / 1000))
                                       (nearest_double (now w))) 1000) 2,
                tr_traceback = None\<rparr>,
            w\<lparr>alarm := None, now := now w + 1 / 1000\<rparr>)"
proof -
  have i: "dict_get (tc_input (tc_add x y e)) (PDict [])
             = PDict [(PStr ''a'', PInt x), (PStr ''b'', PInt y)]"
    by (simp add: tc_add_def dict_get_def)
  have a: "alarm (arm 2 w) = Some (now (arm 2 w) + 2)"
    using assms by (simp add: arm_def signal_alarm_def)
  from call_add [OF a, of x y]
  have c: "call cand_add (dict_get (tc_input (tc_add x y e)) (PDict [])) (arm 2 w)
             = (Ok (PInt (x + y)), (arm 2 w)\<lparr>now := now (arm 2 w) + 1 / 1000\<rparr>)"
    by (simp only: i)
  show ?thesis
    unfolding rst_Ok [OF c]
    using assms
    by (simp add: blank_result_def tc_add_def dict_get_def time_time_def arm_def
          signal_alarm_def disable_timeout_def)
qed

lemma rst_add_empty:
  assumes "has_sigalrm w"
  shows "run_single_test cand_add tc_empty 2 w =
           (Ok \<lparr>tr_id = PStr ''no-input'', tr_input = PDict [],
                tr_expected = PInt 0, tr_explanation = PStr [],
                tr_passed = False, tr_output = PNone,
                tr_error = Some ''TypeError: add() argument mismatch'',
                tr_execution_time_ms = 0, tr_traceback = Some []\<rparr>,
            w\<lparr>alarm := None\<rparr>)"
proof -
  have c: "call cand_add (dict_get (tc_input tc_empty) (PDict [])) (arm 2 w)
             = (Raise type_error, (arm 2 w)\<lparr>now := now (arm 2 w) + 0\<rparr>)"
    using assms
    by (simp add: call_def fires_before_def tc_empty_def dict_get_def arm_def signal_alarm_def)
  show ?thesis
    unfolding rst_Raise [OF c]
    using assms
    by (simp add: blank_result_def tc_empty_def dict_get_def arm_def type_error_def
          is_Exception_def signal_alarm_def disable_timeout_def)
qed

lemma cmp_int: "compare_outputs (PInt a) (PInt a)"
  by (simp add: compare_outputs_def compare_normalized_def)

lemma load_env_add:
  "load_problem (env_add c tcs)
     = Ok \<lparr>starter_code_python = Some ''def add(a, b):'', test_cases = Some tcs\<rparr>"
  by (simp add: load_problem_def env_add_def)

lemma import_env_add:
  "import_user_solution (env_add c tcs) = Ok [(''__builtins__'', Val PNone), (''add'', Fn c)]"
  by (simp add: import_user_solution_def env_add_def)

lemma hint_add: "scan_starter_code [(''__builtins__'', Val PNone), (''add'', Fn c)]
                   (split_on CHR 0x0A ''def add(a, b):'') = Some ''add''"
  by code_simp

lemma detect_env_add:
  "detect_function_name bn \<lparr>starter_code_python = Some ''def add(a, b):'', test_cases = t\<rparr>
     [(''__builtins__'', Val PNone), (''add'', Fn c)] = Ok ''add''"
proof -
  have d: "dict_get (starter_code_python
             \<lparr>starter_code_python = Some ''def add(a, b):'', test_cases = t\<rparr>) []
           = ''def add(a, b):''"
    by (simp add: dict_get_def)
  show ?thesis
    by (simp only: detect_function_name_def Let_def d hint_add option.case)
qed

lemma run_tests_env_add:
  assumes "tcs \<noteq> []"
  shows "run_tests (env_add c tcs) w =
           (case run_each c tcs (initial_report\<lparr>rr_total := length tcs\<rparr>) w of
              (Ok u, r2, w') \<Rightarrow> (Ok r2, w')
            | (Raise e, r2, w') \<Rightarrow> (handle_exn e r2, w')
            | (Hang, r2, w') \<Rightarrow> (Hang, w'))"
  using assms
  by (simp add: run_tests_def load_env_add import_env_add detect_env_add ns_lookup_def
        dict_get_def)

lemma run_three_cases:
  "run_tests (env_add cand_add three_cases) unix_world =
     (Ok three_report, \<lparr>has_sigalrm = True, alarm = None, now = 1 / 500\<rparr>)"
proof -
  let ?w1 = "\<lparr>has_sigalrm = True, alarm = None, now = 1 / 1000\<rparr>"
  let ?w3 = "\<lparr>has_sigalrm = True, alarm = None, now = 1 / 500\<rparr>"
  have 1: "run_single_test cand_add (tc_add 1 2 (PInt 3)) 2 unix_world =
             (Ok (rr_results three_report ! 0), ?w1)"
    using rst_add [of unix_world 1 2 "PInt 3"]
    by (simp add: unix_world_def three_report_def ms_first cmp_int)
  have 2: "run_single_test cand_add tc_empty 2 ?w1 = (Ok (rr_results three_report ! 1), ?w1)"
    using rst_add_empty [of ?w1] by (simp add: three_report_def)
  have 3: "run_single_test cand_add (tc_add 2 2 (PInt 4)) 2 ?w1 =
             (Ok (rr_results three_report ! 2), ?w3)"
    using rst_add [of ?w1 2 2 "PInt 4"] by (simp add: three_report_def ms_third cmp_int)
  have "run_each cand_add three_cases (initial_report\<lparr>rr_total := length three_cases\<rparr>)
          unix_world = (Ok (), three_report, ?w3)"
    unfolding three_cases_def run_each_Cons_Ok [OF 1] run_each_Cons_Ok [OF 2]
      run_each_Cons_Ok [OF 3]
    by (simp add: add_result_def initial_report_def three_report_def)
  then show ?thesis
    by (simp add: run_tests_env_add three_cases_def)
qed





subsection \<open>Pass and fail\<close>



subsection \<open>Execution time\<close>

text \<open>
  Claim C2, as the code has it. When \<open>run_single_test\<close> gives a result, its
  \<open>execution_time_ms\<close> is \<open>round((end_time - start_time) * 1000, 2)\<close> of the clock
  readings around the call if the call returned normally (no \<open>error\<close>), and it is the
  initial \<open>0\<close> if the call raised or timed out.
\<close>

theorem execution_time_recorded:
  assumes "run_single_test func tc n w = (Ok r, w')"
  shows "tr_execution_time_ms r =
           (if tr_error r = None
            then py_round (fmul (fsub (time_time w') (time_time w)) 1000) 2
            else 0)"
proof (cases rule: call_cases [of func "dict_get (tc_input tc) (PDict [])" "arm n w"])
  case (ok v w2)
  have t1: "time_time (arm n w) = time_time w"
    by (simp add: arm_def signal_alarm_def time_time_def)
  have t2: "time_time (disable_timeout (arm 0 w2)) = time_time w2"
    by (simp add: arm_def disable_timeout_def signal_alarm_def time_time_def)
  from rst_Ok [OF ok] assms show ?thesis
    by (auto simp: blank_result_def t1 t2)
next
  case (raise e w2)
  from rst_Raise [OF raise] assms show ?thesis
    by (auto simp: blank_result_def split: if_splits)
next
  case (hang w2)
  from rst_Hang [OF hang] assms show ?thesis by simp
qed

theorem execution_time_recorded_witness:
  "run_single_test cand_add (tc_add 1 2 (PInt 3)) 2 unix_world =
     (Ok (rr_results three_report ! 0), \<lparr>has_sigalrm = True, alarm = None, now = 1 / 1000\<rparr>)
   \<and> tr_error (rr_results three_report ! 0) = None
   \<and> tr_execution_time_ms (rr_results three_report ! 0) =
       py_round (fmul (fsub (time_time \<lparr>has_sigalrm = True, alarm = None, now = 1 / 1000\<rparr>)
                            (time_time unix_world)) 1000) 2"
proof -
  have h: "run_single_test cand_add (tc_add 1 2 (PInt 3)) 2 unix_world =
     (Ok (rr_results three_report ! 0), \<lparr>has_sigalrm = True, alarm = None, now = 1 / 1000\<rparr>)"
    using rst_add [of unix_world 1 2 "PInt 3"]
    by (simp add: unix_world_def three_report_def ms_first cmp_int)
  have e: "tr_error (rr_results three_report ! 0) = None"
    by (simp add: three_report_def)
  from execution_time_recorded [OF h] e h show ?thesis by (simp only: if_True simp_thms)
qed

text \<open>
  The call below raises \<open>ZeroDivisionError\<close> after half a second: the clock has moved
  from 0 to 1/2, \<open>round((end - start) * 1000, 2)\<close> of these readings is 500, and the
  result records 0.
\<close>

theorem execution_time_counterexample:
  "run_single_test cand_raise (tc_add 1 2 (PInt 3)) 2 unix_world =
     (Ok \<lparr>tr_id = PStr ''unknown'',
          tr_input = PDict [(PStr ''a'', PInt 1), (PStr ''b'', PInt 2)],
          tr_expected = PInt 3, tr_explanation = PStr [], tr_passed = False,
          tr_output = PNone, tr_error = Some ''ZeroDivisionError: division by zero'',
          tr_execution_time_ms = 0, tr_traceback = Some []\<rparr>,
      \<lparr>has_sigalrm = True, alarm = None, now = 1 / 2\<rparr>)
   \<and> py_round (fmul (fsub (time_time \<lparr>has_sigalrm = True, alarm = None, now = 1 / 2\<rparr>)
                           (time_time unix_world)) 1000) 2 = 500"
  by code_simp

subsection \<open>No test cases\<close>



subsection \<open>Exit status\<close>



subsection \<open>The handlers of \<open>run_tests\<close>\<close>

lemma handle_exn_Ok:
  assumes "handle_exn e r0 = Ok r"
  shows "\<not> rr_success r \<and> rr_error r \<noteq> None \<and> rr_results r = rr_results r0
         \<and> rr_total r = rr_total r0 \<and> is_Exception e"
  using assms by (auto simp: handle_exn_def is_Exception_def split: if_splits)


lemma handle_exn_not_Hang [simp]: "handle_exn e r0 \<noteq> Hang"
  by (simp add: handle_exn_def)

lemma run_tests_success:
  assumes "fst (run_tests en w) = Ok r" and "rr_success r"
  shows "\<exists>p obj w'. load_problem en = Ok p \<and> dict_get (test_cases p) [] \<noteq> []
           \<and> run_each (as_callable obj) (dict_get (test_cases p) [])
                (initial_report\<lparr>rr_total := length (dict_get (test_cases p) [])\<rparr>) w
              = (Ok (), r, w')"
proof (cases "load_problem en")
  case (Ok p)
  let ?tcs = "dict_get (test_cases p) []"
  let ?r1 = "initial_report\<lparr>rr_total := length ?tcs\<rparr>"
  show ?thesis
  proof (cases "?tcs = []")
    case True
    with Ok assms show ?thesis by (auto simp: run_tests_def Let_def)
  next
    case ne: False
    show ?thesis
    proof (cases "import_user_solution en")
      case (Ok ns)
      note ns = this
      show ?thesis
      proof (cases "detect_function_name (builtins en) p ns")
        case (Ok name)
        note name = this
        show ?thesis
        proof (cases "ns_lookup ns name")
          case (Ok obj)
          obtain st r2 w2 where re: "run_each (as_callable obj) ?tcs ?r1 w = (st, r2, w2)"
            by (cases "run_each (as_callable obj) ?tcs ?r1 w") auto
          from assms \<open>load_problem en = Ok p\<close> ne ns name Ok re
          have "st = Ok () \<and> r2 = r"
            by (cases st) (auto simp: run_tests_def Let_def dest: handle_exn_Ok)
          with re \<open>load_problem en = Ok p\<close> ne show ?thesis by auto
        next
          case (Raise e)
          with assms \<open>load_problem en = Ok p\<close> ne ns name show ?thesis
            by (auto simp: run_tests_def Let_def dest: handle_exn_Ok)
        next
          case Hang
          with assms \<open>load_problem en = Ok p\<close> ne ns name show ?thesis
            by (simp add: run_tests_def Let_def)
        qed
      next
        case (Raise e)
        with assms \<open>load_problem en = Ok p\<close> ne ns show ?thesis
          by (auto simp: run_tests_def Let_def dest: handle_exn_Ok)
      next
        case Hang
        with assms \<open>load_problem en = Ok p\<close> ne ns show ?thesis
          by (simp add: run_tests_def Let_def)
      qed
    next
      case (Raise e)
      with assms \<open>load_problem en = Ok p\<close> ne show ?thesis
        by (auto simp: run_tests_def Let_def dest: handle_exn_Ok)
    next
      case Hang
      with assms \<open>load_problem en = Ok p\<close> ne show ?thesis
        by (simp add: run_tests_def Let_def)
    qed
  qed
next
  case (Raise e)
  with assms show ?thesis by (auto simp: run_tests_def Let_def dest: handle_exn_Ok)
next
  case Hang
  with assms show ?thesis by (simp add: run_tests_def Let_def)
qed

subsection \<open>The report of a successful run\<close>

text \<open>
  Claim C4. A report with \<open>success = True\<close> has \<open>total\<close> equal to the number of its
  results and \<open>passed + failed\<close> equal to \<open>total\<close>, and its results echo the test cases
  of the problem (id, input, expected value, explanation) one by one in the order of
  their declaration.
\<close>

theorem success_report_invariants:
  assumes "fst (run_tests en w) = Ok r" and "rr_success r"
  shows "rr_total r = length (rr_results r)
         \<and> rr_passed r + rr_failed r = rr_total r
         \<and> (\<exists>p. load_problem en = Ok p
                \<and> map echo_tr (rr_results r) = map echo_tc (dict_get (test_cases p) []))"
proof -
  from run_tests_success [OF assms] obtain p obj w' where
    p: "load_problem en = Ok p" and
    re: "run_each (as_callable obj) (dict_get (test_cases p) [])
           (initial_report\<lparr>rr_total := length (dict_get (test_cases p) [])\<rparr>) w = (Ok (), r, w')"
    by blast
  from run_each_report [OF re] obtain rs where rs:
    "rr_results r = rs" "map echo_tr rs = map echo_tc (take (length rs) (dict_get (test_cases p) []))"
    "rr_passed r + rr_failed r = length rs"
    "rr_total r = length (dict_get (test_cases p) [])"
    "length rs = length (dict_get (test_cases p) [])"
    by (auto simp: initial_report_def)
  with p show ?thesis by simp
qed

theorem success_report_invariants_witness:
  "fst (run_tests (env_add cand_add three_cases) unix_world) = Ok three_report
   \<and> rr_success three_report
   \<and> rr_total three_report = length (rr_results three_report)
   \<and> rr_passed three_report + rr_failed three_report = rr_total three_report
   \<and> map echo_tr (rr_results three_report) = map echo_tc three_cases"
proof -
  have h: "fst (run_tests (env_add cand_add three_cases) unix_world) = Ok three_report"
    by (simp add: run_three_cases)
  have s: "rr_success three_report" by (simp add: three_report_def)
  have p: "load_problem (env_add cand_add three_cases)
             = Ok \<lparr>starter_code_python = Some ''def add(a, b):'', test_cases = Some three_cases\<rparr>"
    by (simp add: load_problem_def env_add_def)
  from success_report_invariants [OF h s] p h s show ?thesis by (simp add: dict_get_def)
qed


lemma detect_not_Hang [simp]: "detect_function_name bn p ns \<noteq> Hang"
  by (auto simp: detect_function_name_def Let_def split: option.splits)

subsection \<open>Failure after the problem has loaded\<close>




subsection \<open>Faults of the candidate\<close>




subsection \<open>The watchdog\<close>




subsection \<open>The function to test\<close>

text \<open>
  The three loops of \<open>detect_function_name\<close> make an ordered selection: the first
  declaration line of the starter code whose extracted name is callable in the
  namespace, else the first callable common name, else the first callable of the
  namespace whose name has no leading underscore and is no builtin, else \<open>ValueError\<close>.
\<close>

lemma scan_starter_code_find:
  "scan_starter_code ns ls =
     find (callable_in ns) (map extract_name (filter (\<lambda>line. startswith (strip line) ''def '') ls))"
  by (induction ls) (simp_all add: Let_def)

lemma scan_common_names_find: "scan_common_names ns names = find (callable_in ns) names"
  by (induction names) simp_all

lemma scan_namespace_find:
  "scan_namespace bn ns =
     map_option fst (find (\<lambda>(name, obj). callable obj \<and> \<not> startswith name ''_''
                                  \<and> name \<notin> set bn) ns)"
  by (induction bn ns rule: scan_namespace.induct) simp_all

lemma detect_function_name_ordered:
  "detect_function_name bn p ns = ordered_selection bn p ns"
  by (auto simp: detect_function_name_def ordered_selection_def hint_names_def Let_def
        scan_starter_code_find scan_common_names_find scan_namespace_find
        split: option.splits)

text \<open>
  For a declaration written \<open>def name(\<close>, the extracted name is the declared one.
\<close>

lemma extract_name_add: "extract_name ''def add(a, b):'' = ''add''"
  by code_simp

text \<open>
  Claim C6 at a starter code that declares \<open>mydef\<close> with a space before the
  parenthesis. \<open>replace("def ", "")\<close> removes the keyword and also the end of the name:
  the extracted name is \<open>my\<close>, the callable \<open>mydef\<close> of the namespace is not picked, and
  the selection falls through to the common name \<open>solve\<close>.
\<close>

theorem hint_name_extraction:
  "extract_name ''def mydef (x):'' = ''my''
   \<and> callable_in [(''mydef'', Fn cand_add), (''solve'', Fn cand_add)] ''mydef''
   \<and> detect_function_name []
        \<lparr>starter_code_python = Some ''def mydef (x):'', test_cases = None\<rparr>
        [(''mydef'', Fn cand_add), (''solve'', Fn cand_add)] = Ok ''solve''"
  by code_simp

subsection \<open>Floats\<close>

lemma value_floats_normalize:
  "value_floats (normalize_output v) = map (\<lambda>x. py_round x 6) (value_floats v)"
  by (induction v rule: normalize_output.induct)
     (auto simp: map_concat comp_def intro!: arg_cong [where f = concat])

text \<open>
  Claim C9, as the code has it. \<open>compare_outputs\<close> compares the normalized values,
  and normalization replaces every float that is the value itself, an element of a list
  or tuple, or a value of a dictionary, at any depth, by \<open>round(x, 6)\<close>; the keys of a
  dictionary are kept as they are. In particular the float \<open>0.1 + 0.2\<close> compares equal
  to the float \<open>0.3\<close>, although the two floats differ.
\<close>

theorem floats_rounded_before_comparison:
  "compare_outputs a e = compare_normalized (normalize_output a) (normalize_output e)
   \<and> value_floats (normalize_output v) = map (\<lambda>x. py_round x 6) (value_floats v)
   \<and> compare_outputs (PFloat (fadd (nearest_double (1 / 10)) (nearest_double (1 / 5))))
        (PFloat (nearest_double (3 / 10)))
   \<and> fadd (nearest_double (1 / 10)) (nearest_double (1 / 5)) \<noteq> nearest_double (3 / 10)"
proof -
  have "compare_outputs (PFloat (fadd (nearest_double (1 / 10)) (nearest_double (1 / 5))))
          (PFloat (nearest_double (3 / 10)))"
    by code_simp
  moreover have "fadd (nearest_double (1 / 10)) (nearest_double (1 / 5)) \<noteq> nearest_double (3 / 10)"
    by code_simp
  ultimately show ?thesis
    by (simp add: compare_outputs_def value_floats_normalize)
qed

text \<open>
  A float that is a key of a dictionary is not rounded: the dictionary with the key
  \<open>0.1 + 0.2\<close> is left as it is by normalization, and it does not compare equal to the
  dictionary with the key \<open>0.3\<close>.
\<close>

theorem floats_rounded_counterexample:
  "normalize_output (PDict [(PFloat (fadd (nearest_double (1 / 10)) (nearest_double (1 / 5))), PInt 1)])
     = PDict [(PFloat (fadd (nearest_double (1 / 10)) (nearest_double (1 / 5))), PInt 1)]
   \<and> py_round (fadd (nearest_double (1 / 10)) (nearest_double (1 / 5))) 6
       \<noteq> fadd (nearest_double (1 / 10)) (nearest_double (1 / 5))
   \<and> \<not> compare_outputs
         (PDict [(PFloat (fadd (nearest_double (1 / 10)) (nearest_double (1 / 5))), PInt 1)])
         (PDict [(PFloat (nearest_double (3 / 10)), PInt 1)])"
  by code_simp

end
